theory Spec2Isabelle
  imports Complex_Main
begin

section \<open>Python values and exceptions\<close>

text \<open>
  The exception classes that the package raises. An operation that may raise returns
  \<open>error + 'a\<close>, with \<open>Inl\<close> carrying the exception class.
\<close>

datatype error = ValueError | TypeError | IndexError | AttributeError | KMSetAdditionError

text \<open>
  The values that a function of \<^verbatim>\<open>utils.py\<close> hands back as they are: a string, an
  integer, or any other object, known by its identity only.
\<close>

datatype py_value = PyStr string | PyInt int | PyOpaque nat

text \<open>
  The helper functions of \<^verbatim>\<open>utils.py\<close> accept any Python object and look at it only
  through a few builtins. An object is therefore represented by what those builtins
  answer for it:
  \<^item> \<open>isinstance_str\<close>: \<^verbatim>\<open>isinstance(obj, str)\<close>;
  \<^item> \<open>isinstance_Iterable\<close>: \<^verbatim>\<open>isinstance(obj, collections.abc.Iterable)\<close>;
  \<^item> \<open>py_len\<close>: the result of \<^verbatim>\<open>len(obj)\<close>, an exception for an object without length;
  \<^item> \<open>py_callable\<close>: \<^verbatim>\<open>callable(obj)\<close>;
  \<^item> \<open>signature_parameters\<close>: the names in \<^verbatim>\<open>inspect.signature(obj).parameters\<close>, an
    exception where \<^verbatim>\<open>inspect\<close> finds no signature (C and builtin functions);
  \<^item> \<open>hasattr_name\<close>: the result of \<^verbatim>\<open>hasattr(obj, '__name__')\<close>, which answers no
    on an \<^verbatim>\<open>AttributeError\<close> and lets every other exception of the lookup through;
  \<^item> \<open>dunder_name\<close>: the result of reading \<^verbatim>\<open>obj.__name__\<close>, any value or an
    exception;
  \<^item> \<open>py_str\<close>: the result of \<^verbatim>\<open>str(obj)\<close>, which runs the object's own
    \<^verbatim>\<open>__str__\<close> and raises what that raises.
\<close>

record py_object =
  isinstance_str :: bool
  isinstance_Iterable :: bool
  py_len :: "error + nat"
  py_callable :: bool
  signature_parameters :: "error + string list"
  hasattr_name :: "error + bool"
  dunder_name :: "error + py_value"
  py_str :: "error + string"

section \<open>utils.py: callables and iterables\<close>

text \<open>
  \<^verbatim>\<open>check_callable(input_func, min_num_args=2)\<close>: the callable test first, then the
  signature is read (an exception of \<^verbatim>\<open>inspect.signature\<close> propagates), then the
  number of declared parameters is compared with \<open>min_num_args\<close>.
\<close>

definition check_callable :: "py_object \<Rightarrow> int \<Rightarrow> error + py_object" where
  "check_callable input_func min_num_args =
     (if \<not> py_callable input_func then Inl TypeError
      else case signature_parameters input_func of
             Inl e \<Rightarrow> Inl e
           | Inr parameters \<Rightarrow>
               if int (length parameters) < min_num_args then Inl TypeError
               else Inr input_func)"


text \<open>
  \<^verbatim>\<open>is_iterable_but_not_str(input_obj, min_length=1)\<close>. The call \<^verbatim>\<open>len(input_obj)\<close> is
  reached only by a non-string iterable, and its exception propagates.
\<close>

definition is_iterable_but_not_str :: "py_object \<Rightarrow> int \<Rightarrow> error + bool" where
  "is_iterable_but_not_str input_obj min_length =
     (if \<not> (\<not> isinstance_str input_obj \<and> isinstance_Iterable input_obj) then Inr False
      else case py_len input_obj of
             Inl e \<Rightarrow> Inl e
           | Inr n \<Rightarrow> if int n < min_length then Inr False else Inr True)"

section \<open>utils.py: array validation\<close>

text \<open>
  An \<^verbatim>\<open>ndarray\<close> as the validation functions see it: its shape, its dtype and its
  elements in row-major order. The number of dimensions and the number of elements are
  read off the shape, as numpy does.
\<close>

record ('d, 'a) ndarray =
  shape :: "nat list"
  dtype :: 'd
  elements :: "'a list"

definition ndim :: "('d, 'a) ndarray \<Rightarrow> nat" where
  "ndim array = length (shape array)"

definition ndarray_size :: "('d, 'a) ndarray \<Rightarrow> nat" where
  "ndarray_size array = prod_list (shape array)"

text \<open>
  The argument of the validation functions is either an \<^verbatim>\<open>ndarray\<close> or some other
  object, which \<^verbatim>\<open>np.asarray\<close> converts.
\<close>

datatype ('d, 'a, 'o) array_like = Ndarray "('d, 'a) ndarray" | Other 'o

text \<open>
  The parts of numpy that depend on its dtype lattice and on its conversion of values are
  parameters of the model:
  \<^item> \<open>np_asarray\<close>: \<^verbatim>\<open>np.asarray\<close> on an object that is not an array;
  \<^item> \<open>np_issubdtype\<close>: \<^verbatim>\<open>np.issubdtype(arg1, arg2)\<close>;
  \<^item> \<open>np_convert\<close>: the conversion of one element by \<^verbatim>\<open>astype\<close>, from the target
    dtype, the array's dtype and the element; \<open>None\<close> where the conversion raises;
  \<^item> \<open>np_dtype\<close>: the dtype that an array converted to the requested dtype carries.
\<close>

record ('d, 'a, 'o) numpy =
  np_asarray :: "'o \<Rightarrow> error + ('d, 'a) ndarray"
  np_issubdtype :: "'d \<Rightarrow> 'd \<Rightarrow> bool"
  np_convert :: "'d \<Rightarrow> 'd \<Rightarrow> 'a \<Rightarrow> 'a option"
  np_dtype :: "'d \<Rightarrow> 'd"

text \<open>
  \<^verbatim>\<open>array.astype(ensure_dtype)\<close>: every element is converted, the shape is kept; one
  element that cannot be converted makes the whole call raise (\<open>None\<close>).
\<close>

definition astype :: "('d, 'a, 'o) numpy \<Rightarrow> ('d, 'a) ndarray \<Rightarrow> 'd \<Rightarrow> ('d, 'a) ndarray option" where
  "astype np array ensure_dtype =
     (let converted = map (np_convert np ensure_dtype (dtype array)) (elements array)
      in if list_all (\<lambda>c. c \<noteq> None) converted
         then Some (array\<lparr>dtype := np_dtype np ensure_dtype, elements := map the converted\<rparr>)
         else None)"

text \<open>
  \<^verbatim>\<open>tuple(ax for ax, sz in enumerate(array.shape) if sz==1 and ax>k)\<close>, with \<open>k = 1\<close> in
  \<^verbatim>\<open>ensure_ndarray_2D\<close> and \<open>k = 0\<close> in \<^verbatim>\<open>ensure_ndarray_1D\<close>.
\<close>

definition axes_to_sqz :: "nat \<Rightarrow> nat list \<Rightarrow> nat list" where
  "axes_to_sqz k shp = map fst (filter (\<lambda>(ax, sz). sz = 1 \<and> ax > k) (enumerate 0 shp))"

text \<open>
  \<^verbatim>\<open>np.squeeze(array, axis=axes)\<close> with a tuple of axes: each axis named must exist and
  have length one, else numpy raises a \<^verbatim>\<open>ValueError\<close> (an \<^verbatim>\<open>AxisError\<close> is one); the
  axes named are removed from the shape and the elements stay as they are. The empty
  tuple removes nothing.
\<close>

definition squeeze :: "('d, 'a) ndarray \<Rightarrow> nat list \<Rightarrow> error + ('d, 'a) ndarray" where
  "squeeze array axes =
     (if list_all (\<lambda>ax. ax < length (shape array) \<and> shape array ! ax = 1) axes
      then Inr (array\<lparr>shape := map snd (filter (\<lambda>(ax, sz). ax \<notin> set axes)
                                            (enumerate 0 (shape array)))\<rparr>)
      else Inl ValueError)"

text \<open>
  The shape that is left when the singleton axes after axis \<open>k\<close> are removed: what
  \<^verbatim>\<open>np.squeeze\<close> returns for the axes chosen by \<open>axes_to_sqz k\<close>
  (lemma \<open>squeeze_axes_to_sqz\<close> below).
\<close>

definition shape_after_squeeze :: "nat \<Rightarrow> nat list \<Rightarrow> nat list" where
  "shape_after_squeeze k shp =
     map snd (filter (\<lambda>(ax, sz). \<not> (sz = 1 \<and> k < ax)) (enumerate 0 shp))"

text \<open>\<^verbatim>\<open>if not isinstance(array, np.ndarray): array = np.asarray(array)\<close>\<close>

definition as_ndarray :: "('d, 'a, 'o) numpy \<Rightarrow> ('d, 'a, 'o) array_like \<Rightarrow> error + ('d, 'a) ndarray" where
  "as_ndarray np array = (case array of Ndarray a \<Rightarrow> Inr a | Other obj \<Rightarrow> np_asarray np obj)"

text \<open>
  \<^verbatim>\<open>ensure_ndarray_size(array, ensure_dtype, ensure_num_dim)\<close>: the dimension test, then
  the dtype test with its arguments in the order of the source
  (\<^verbatim>\<open>np.issubdtype(ensure_dtype, array.dtype)\<close>); the bare \<^verbatim>\<open>except\<close> turns every
  failure of \<^verbatim>\<open>astype\<close> into a \<^verbatim>\<open>ValueError\<close>.
\<close>

definition ensure_ndarray_size ::
  "('d, 'a, 'o) numpy \<Rightarrow> ('d, 'a) ndarray \<Rightarrow> 'd \<Rightarrow> int \<Rightarrow> error + ('d, 'a) ndarray" where
  "ensure_ndarray_size np array ensure_dtype ensure_num_dim =
     (if int (ndim array) \<noteq> ensure_num_dim then Inl ValueError
      else if \<not> np_issubdtype np ensure_dtype (dtype array)
      then (case astype np array ensure_dtype of
              None \<Rightarrow> Inl ValueError
            | Some converted \<Rightarrow> Inr converted)
      else Inr array)"

text \<open>\<^verbatim>\<open>ensure_ndarray_1D(array, ensure_dtype)\<close>\<close>

definition ensure_ndarray_1D ::
  "('d, 'a, 'o) numpy \<Rightarrow> ('d, 'a, 'o) array_like \<Rightarrow> 'd \<Rightarrow> error + ('d, 'a) ndarray" where
  "ensure_ndarray_1D np array ensure_dtype =
     (case as_ndarray np array of
        Inl e \<Rightarrow> Inl e
      | Inr a \<Rightarrow>
          (case squeeze a (axes_to_sqz 0 (shape a)) of
             Inl e \<Rightarrow> Inl e
           | Inr squeezed \<Rightarrow> ensure_ndarray_size np squeezed ensure_dtype 1))"

text \<open>
  \<^verbatim>\<open>ensure_ndarray_2D(array, ensure_dtype, ensure_num_cols=None)\<close>; \<open>ensure_num_cols\<close>
  is \<open>None\<close> for Python's \<^verbatim>\<open>None\<close>. The column test reads \<^verbatim>\<open>array.shape[1]\<close> of an array
  that passed the dimension test, so the index is in range.
\<close>

definition ensure_ndarray_2D ::
  "('d, 'a, 'o) numpy \<Rightarrow> ('d, 'a, 'o) array_like \<Rightarrow> 'd \<Rightarrow> int option \<Rightarrow> error + ('d, 'a) ndarray" where
  "ensure_ndarray_2D np array ensure_dtype ensure_num_cols =
     (case as_ndarray np array of
        Inl e \<Rightarrow> Inl e
      | Inr a \<Rightarrow>
          (case squeeze a (axes_to_sqz 1 (shape a)) of
             Inl e \<Rightarrow> Inl e
           | Inr squeezed \<Rightarrow>
               (case ensure_ndarray_size np squeezed ensure_dtype 2 of
                  Inl e \<Rightarrow> Inl e
                | Inr checked \<Rightarrow>
                    (case ensure_num_cols of
                       None \<Rightarrow> Inr checked
                     | Some cols \<Rightarrow>
                         if int (shape checked ! 1) \<noteq> cols then Inl ValueError
                         else Inr checked))))"

text \<open>\<^verbatim>\<open>check_input_arrays(x, y, ensure_dtype)\<close>\<close>

definition check_input_arrays ::
  "('d, 'a, 'o) numpy \<Rightarrow> ('d, 'a, 'o) array_like \<Rightarrow> ('d, 'a, 'o) array_like \<Rightarrow> 'd
     \<Rightarrow> error + (('d, 'a) ndarray \<times> ('d, 'a) ndarray)" where
  "check_input_arrays np x y ensure_dtype =
     (case ensure_ndarray_1D np x ensure_dtype of
        Inl e \<Rightarrow> Inl e
      | Inr x1 \<Rightarrow>
          (case ensure_ndarray_1D np y ensure_dtype of
             Inl e \<Rightarrow> Inl e
           | Inr y1 \<Rightarrow>
               if ndarray_size x1 \<noteq> ndarray_size y1 then Inl ValueError
               else Inr (x1, y1)))"

section \<open>KernelMatrix and KernelSet\<close>

text \<open>
  Modelled from the spec: the class \<^verbatim>\<open>KernelMatrix\<close> of \<^verbatim>\<open>kernelmethods/base.py\<close>,
  which is not among the sources (only its tests are). The record holds the fields of
  section 3 of the specification that indexed access reads and writes: the kernel
  function, the attached dataset (\<open>None\<close> before any \<^verbatim>\<open>attach_to\<close>) and the cache, a
  mapping from the canonical index pair to the similarity computed for it. The type \<open>'x\<close>
  is the type of one sample and \<open>'v\<close> the type of a similarity value, compared by identity
  of the value.
\<close>

record ('x, 'v) kernel_matrix =
  kernel_func :: "'x \<Rightarrow> 'x \<Rightarrow> 'v"
  dataset :: "'x list option"
  cache :: "(nat \<times> nat) \<rightharpoonup> 'v"

text \<open>
  Modelled from the spec: \<^verbatim>\<open>KernelMatrix.num_samples\<close>, the number of rows of the
  attached dataset, undetermined while nothing is attached.
\<close>

definition km_num_samples :: "('x, 'v) kernel_matrix \<Rightarrow> nat option" where
  "km_num_samples km = map_option length (dataset km)"

text \<open>
  Modelled from the spec: \<^verbatim>\<open>KernelMatrix.attach_to\<close> (section 4.1): binds the dataset and
  clears the cache.
\<close>

definition attach_to :: "('x, 'v) kernel_matrix \<Rightarrow> 'x list \<Rightarrow> ('x, 'v) kernel_matrix" where
  "attach_to km samples = km\<lparr>dataset := Some samples, cache := Map.empty\<rparr>"

text \<open>
  Modelled from the spec: \<^verbatim>\<open>KernelMatrix.__getitem__\<close> (section 4.1). An index outside
  \<open>[0, num_samples)\<close> raises the indexing error; no index is below an undetermined
  \<open>num_samples\<close>. Otherwise the similarity cached under the key \<open>(min i j, max i j)\<close> is
  returned; on the first request for that key it is computed as
  \<^verbatim>\<open>kernel_func(dataset[i], dataset[j])\<close> and stored under the key. The result is the value
  together with the matrix after the call.
\<close>

definition km_getitem ::
  "('x, 'v) kernel_matrix \<Rightarrow> int \<Rightarrow> int \<Rightarrow> error + ('v \<times> ('x, 'v) kernel_matrix)" where
  "km_getitem km i j =
     (case dataset km of
        None \<Rightarrow> Inl IndexError
      | Some samples \<Rightarrow>
          if \<not> (0 \<le> i \<and> i < int (length samples) \<and> 0 \<le> j \<and> j < int (length samples))
          then Inl IndexError
          else
            (let key = (nat (min i j), nat (max i j))
             in case cache km key of
                  Some v \<Rightarrow> Inr (v, km)
                | None \<Rightarrow>
                    (let v = kernel_func km (samples ! nat i) (samples ! nat j)
                     in Inr (v, km\<lparr>cache := (cache km)(key \<mapsto> v)\<rparr>))))"

text \<open>
  Modelled from the spec: the class \<^verbatim>\<open>KernelSet\<close> of \<^verbatim>\<open>kernelmethods/base.py\<close>, which is
  not among the sources. Its members are references to \<^verbatim>\<open>KernelMatrix\<close> objects, in
  insertion order; the objects themselves live in a store, so that two sets holding the
  same reference share the object. \<open>num_samples\<close> is \<open>None\<close> until it is declared at
  construction or taken from the first member.
\<close>

type_synonym km_ref = nat

type_synonym ('x, 'v) km_store = "km_ref \<Rightarrow> ('x, 'v) kernel_matrix"

record kernel_set =
  members :: "km_ref list"
  num_samples :: "nat option"

text \<open>Modelled from the spec: \<^verbatim>\<open>KernelSet(num_samples=...)\<close> without initial members.\<close>

definition empty_kernel_set :: "nat option \<Rightarrow> kernel_set" where
  "empty_kernel_set declared = \<lparr>members = [], num_samples = declared\<rparr>"

text \<open>Modelled from the spec: \<^verbatim>\<open>KernelSet.size\<close>, the number of members.\<close>

definition ks_size :: "kernel_set \<Rightarrow> nat" where
  "ks_size ks = length (members ks)"

text \<open>
  Modelled from the spec: \<^verbatim>\<open>KernelSet.append\<close> (section 4.2). The sample count of the
  matrix must equal that of the set, or becomes it when the set has none declared and is
  empty; otherwise the set-addition error is raised. The result is the exception raised,
  if any, together with the set after the call. The tests build a set from matrices that
  are not attached yet, so an undetermined count is compared like any other value.
\<close>

definition ks_append ::
  "('x, 'v) km_store \<Rightarrow> kernel_set \<Rightarrow> km_ref \<Rightarrow> error option \<times> kernel_set" where
  "ks_append store ks km =
     (if num_samples ks = None \<and> members ks = []
      then (None, ks\<lparr>members := [km], num_samples := km_num_samples (store km)\<rparr>)
      else if km_num_samples (store km) = num_samples ks
      then (None, ks\<lparr>members := members ks @ [km]\<rparr>)
      else (Some KMSetAdditionError, ks))"

text \<open>
  Modelled from the spec: the index handed to \<^verbatim>\<open>KernelSet.__getitem__\<close> and
  \<^verbatim>\<open>KernelSet.take\<close>: an integer, a float or a string.
\<close>

datatype py_index = IntIndex int | FloatIndex real | StrIndex string

text \<open>
  Modelled from the spec: \<^verbatim>\<open>KernelSet.__getitem__\<close> (section 4.2). An index that is not
  an integer raises a \<^verbatim>\<open>ValueError\<close> (the kind the tests expect), an integer outside
  \<open>[0, size)\<close> raises an \<^verbatim>\<open>IndexError\<close>, and any other index returns the member at it.
\<close>

definition ks_getitem :: "kernel_set \<Rightarrow> py_index \<Rightarrow> error + km_ref" where
  "ks_getitem ks index =
     (case index of
        IntIndex i \<Rightarrow>
          if i < 0 \<or> int (ks_size ks) \<le> i then Inl IndexError
          else Inr (members ks ! nat i)
      | FloatIndex f \<Rightarrow> Inl ValueError
      | StrIndex s \<Rightarrow> Inl ValueError)"

text \<open>
  Modelled from the spec: the members selected by \<^verbatim>\<open>KernelSet.take\<close>, each index
  validated like one of \<^verbatim>\<open>__getitem__\<close>, the first invalid one raising.
\<close>

fun take_members :: "kernel_set \<Rightarrow> py_index list \<Rightarrow> error + km_ref list" where
  "take_members ks [] = Inr []"
| "take_members ks (index # indices) =
     (case ks_getitem ks index of
        Inl e \<Rightarrow> Inl e
      | Inr km \<Rightarrow>
          (case take_members ks indices of
             Inl e \<Rightarrow> Inl e
           | Inr kms \<Rightarrow> Inr (km # kms)))"

text \<open>
  Modelled from the spec: \<^verbatim>\<open>KernelSet.take\<close> (section 4.2). The result is the new set,
  which holds the references selected in the order of the indices and the sample count of
  the original, together with the original set after the call.
\<close>

definition ks_take :: "kernel_set \<Rightarrow> py_index list \<Rightarrow> (error + kernel_set) \<times> kernel_set" where
  "ks_take ks indices =
     (case take_members ks indices of
        Inl e \<Rightarrow> (Inl e, ks)
      | Inr kms \<Rightarrow> (Inr \<lparr>members = kms, num_samples = num_samples ks\<rparr>, ks))"

section \<open>Sample objects\<close>







text \<open>
  A small instance of the numpy parameters, for evaluating the validation functions on
  concrete arrays. A dtype is its name; an element is a number (\<open>Inl\<close>) or a text
  (\<open>Inr\<close>); the objects that are not arrays are flat Python lists, which \<^verbatim>\<open>np.asarray\<close>
  turns into arrays of one dimension. A dtype is below another only when they are the
  same, numbers convert and texts do not, and the abstract \<^verbatim>\<open>number\<close> is realised as
  \<^verbatim>\<open>float64\<close>.
\<close>

definition sample_numpy :: "(string, int + string, (int + string) list) numpy" where
  "sample_numpy =
     \<lparr>np_asarray = (\<lambda>xs. Inr \<lparr>shape = [length xs], dtype = ''object'', elements = xs\<rparr>),
      np_issubdtype = (\<lambda>arg1 arg2. arg1 = arg2),
      np_convert = (\<lambda>target source x. case x of Inl i \<Rightarrow> Some (Inl i) | Inr s \<Rightarrow> None),
      np_dtype = (\<lambda>target. if target = ''number'' then ''float64'' else target)\<rparr>"

definition sample_matrix :: "(string, int + string) ndarray" where
  "sample_matrix =
     \<lparr>shape = [2, 3], dtype = ''int64'', elements = [Inl 1, Inl 2, Inl 3, Inl 4, Inl 5, Inl 6]\<rparr>"

definition sample_vector :: "(string, int + string) ndarray" where
  "sample_vector = \<lparr>shape = [3], dtype = ''int64'', elements = [Inl 1, Inl 2, Inl 3]\<rparr>"

definition sample_column :: "(string, int + string) ndarray" where
  "sample_column = \<lparr>shape = [3, 1], dtype = ''int64'', elements = [Inl 1, Inl 2, Inl 3]\<rparr>"

definition sample_column_3D :: "(string, int + string) ndarray" where
  "sample_column_3D = \<lparr>shape = [3, 1, 1], dtype = ''int64'', elements = [Inl 1, Inl 2, Inl 3]\<rparr>"

definition sample_row :: "(string, int + string) ndarray" where
  "sample_row = \<lparr>shape = [1, 3], dtype = ''int64'', elements = [Inl 1, Inl 2, Inl 3]\<rparr>"

definition sample_text_matrix :: "(string, int + string) ndarray" where
  "sample_text_matrix = \<lparr>shape = [1, 2], dtype = ''str'', elements = [Inr ''a'', Inr ''b'']\<rparr>"

text \<open>
  A store of kernel matrices over samples that are lists of integers, with the linear
  kernel: the matrix at reference 0 is attached to three samples, the one at reference 1
  to the same samples and one more, every other one is not attached.
\<close>

definition linear_kernel :: "int list \<Rightarrow> int list \<Rightarrow> int" where
  "linear_kernel x y = sum_list (map2 (*) x y)"

definition unattached_matrix :: "(int list, int) kernel_matrix" where
  "unattached_matrix = \<lparr>kernel_func = linear_kernel, dataset = None, cache = Map.empty\<rparr>"

definition sample_data :: "int list list" where
  "sample_data = [[1, 2], [3, 4], [5, 6]]"

definition sample_store :: "(int list, int) km_store" where
  "sample_store km =
     (if km = 0 then attach_to unattached_matrix sample_data
      else if km = 1 then attach_to unattached_matrix (sample_data @ [[7, 8]])
      else unattached_matrix)"

text \<open>A set of three members, as the test suite builds it from matrices not attached yet.\<close>

definition sample_set :: kernel_set where
  "sample_set = \<lparr>members = [10, 11, 12], num_samples = None\<rparr>"

section \<open>Callables and iterables: properties\<close>

text \<open>
  C9. \<^verbatim>\<open>is_iterable_but_not_str\<close> returns \<^verbatim>\<open>False\<close> for every string, whatever its
  length and whatever \<open>min_length\<close>; for an iterable that is not a string and has a
  length, it returns \<^verbatim>\<open>False\<close> when the length is below \<open>min_length\<close> and \<^verbatim>\<open>True\<close> when
  the length is at least \<open>min_length\<close>.
\<close>

theorem is_iterable_but_not_str_cases:
  "(isinstance_str obj \<longrightarrow> is_iterable_but_not_str obj min_length = Inr False) \<and>
   (\<not> isinstance_str obj \<and> isinstance_Iterable obj \<and> py_len obj = Inr n \<and> int n < min_length
      \<longrightarrow> is_iterable_but_not_str obj min_length = Inr False) \<and>
   (\<not> isinstance_str obj \<and> isinstance_Iterable obj \<and> py_len obj = Inr n \<and> min_length \<le> int n
      \<longrightarrow> is_iterable_but_not_str obj min_length = Inr True)"
  by (simp add: is_iterable_but_not_str_def)

text \<open>
  The string \<^verbatim>\<open>'abc'\<close>, the empty list and a list of three elements, at the default
  \<open>min_length = 1\<close>.
\<close>

theorem is_iterable_but_not_str_witness:
  "is_iterable_but_not_str
     \<lparr>isinstance_str = True, isinstance_Iterable = True, py_len = Inr 3, py_callable = False,
      signature_parameters = Inl TypeError, hasattr_name = Inr False,
      dunder_name = Inl AttributeError, py_str = Inr ''abc''\<rparr> 1 = Inr False \<and>
   is_iterable_but_not_str
     \<lparr>isinstance_str = False, isinstance_Iterable = True, py_len = Inr 0, py_callable = False,
      signature_parameters = Inl TypeError, hasattr_name = Inr False,
      dunder_name = Inl AttributeError, py_str = Inr ''[]''\<rparr> 1 = Inr False \<and>
   is_iterable_but_not_str
     \<lparr>isinstance_str = False, isinstance_Iterable = True, py_len = Inr 3, py_callable = False,
      signature_parameters = Inl TypeError, hasattr_name = Inr False,
      dunder_name = Inl AttributeError, py_str = Inr ''[1, 2, 3]''\<rparr> 1 = Inr True"
  using
    is_iterable_but_not_str_cases [of
      "\<lparr>isinstance_str = True, isinstance_Iterable = True, py_len = Inr 3, py_callable = False,
        signature_parameters = Inl TypeError, hasattr_name = Inr False,
        dunder_name = Inl AttributeError, py_str = Inr ''abc''\<rparr>" 1 3]
    is_iterable_but_not_str_cases [of
      "\<lparr>isinstance_str = False, isinstance_Iterable = True, py_len = Inr 0, py_callable = False,
        signature_parameters = Inl TypeError, hasattr_name = Inr False,
        dunder_name = Inl AttributeError, py_str = Inr ''[]''\<rparr>" 1 0]
    is_iterable_but_not_str_cases [of
      "\<lparr>isinstance_str = False, isinstance_Iterable = True, py_len = Inr 3, py_callable = False,
        signature_parameters = Inl TypeError, hasattr_name = Inr False,
        dunder_name = Inl AttributeError, py_str = Inr ''[1, 2, 3]''\<rparr>" 1 3]
  by simp




text \<open>
  C6. \<^verbatim>\<open>check_callable\<close> raises a \<^verbatim>\<open>TypeError\<close> for every object that is not callable
  and for every callable whose signature declares fewer than \<open>min_num_args\<close> parameters;
  for a callable whose signature declares at least \<open>min_num_args\<close> parameters it returns
  the object it was given.
\<close>

theorem check_callable_cases:
  "(\<not> py_callable input_func \<longrightarrow> check_callable input_func min_num_args = Inl TypeError) \<and>
   (py_callable input_func \<and> signature_parameters input_func = Inr parameters
      \<and> int (length parameters) < min_num_args
      \<longrightarrow> check_callable input_func min_num_args = Inl TypeError) \<and>
   (py_callable input_func \<and> signature_parameters input_func = Inr parameters
      \<and> min_num_args \<le> int (length parameters)
      \<longrightarrow> check_callable input_func min_num_args = Inr input_func)"
  by (simp add: check_callable_def)

text \<open>
  The calls of the test suite: the string \<^verbatim>\<open>'kdjkj'\<close>, and a function without
  parameters at \<open>min_num_args = 2\<close>; then a function of two parameters at the default.
\<close>

theorem check_callable_witness:
  "check_callable
     \<lparr>isinstance_str = True, isinstance_Iterable = True, py_len = Inr 5, py_callable = False,
      signature_parameters = Inl TypeError, hasattr_name = Inr False,
      dunder_name = Inl AttributeError, py_str = Inr ''kdjkj''\<rparr> 2
     = Inl TypeError \<and>
   check_callable
     \<lparr>isinstance_str = False, isinstance_Iterable = False, py_len = Inl TypeError,
      py_callable = True, signature_parameters = Inr [],
      hasattr_name = Inr True,
      dunder_name = Inr (PyStr ''func_with_less_than_min_args''), py_str = Inr ''<function>''\<rparr> 2
     = Inl TypeError \<and>
   check_callable
     \<lparr>isinstance_str = False, isinstance_Iterable = False, py_len = Inl TypeError,
      py_callable = True, signature_parameters = Inr [''x'', ''y''],
      hasattr_name = Inr True,
      dunder_name = Inr (PyStr ''kernel''), py_str = Inr ''<function>''\<rparr> 2
     = Inr \<lparr>isinstance_str = False, isinstance_Iterable = False, py_len = Inl TypeError,
            py_callable = True, signature_parameters = Inr [''x'', ''y''],
            hasattr_name = Inr True,
            dunder_name = Inr (PyStr ''kernel''), py_str = Inr ''<function>''\<rparr>"
  using
    check_callable_cases [of
      "\<lparr>isinstance_str = True, isinstance_Iterable = True, py_len = Inr 5, py_callable = False,
        signature_parameters = Inl TypeError, hasattr_name = Inr False,
        dunder_name = Inl AttributeError, py_str = Inr ''kdjkj''\<rparr>" 2 "[]"]
    check_callable_cases [of
      "\<lparr>isinstance_str = False, isinstance_Iterable = False, py_len = Inl TypeError,
        py_callable = True, signature_parameters = Inr [],
        hasattr_name = Inr True,
        dunder_name = Inr (PyStr ''func_with_less_than_min_args''), py_str = Inr ''<function>''\<rparr>" 2 "[]"]
    check_callable_cases [of
      "\<lparr>isinstance_str = False, isinstance_Iterable = False, py_len = Inl TypeError,
        py_callable = True, signature_parameters = Inr [''x'', ''y''],
        hasattr_name = Inr True,
        dunder_name = Inr (PyStr ''kernel''), py_str = Inr ''<function>''\<rparr>" 2 "[''x'', ''y'']"]
  by simp

section \<open>Array validation: properties\<close>

subsection \<open>Squeezing and conversion\<close>

text \<open>
  The axes chosen by \<open>axes_to_sqz\<close> exist and have length one, so \<^verbatim>\<open>np.squeeze\<close> never
  raises on them, and what is left of the shape is \<open>shape_after_squeeze\<close>.
\<close>

lemma axes_to_sqz_valid:
  "list_all (\<lambda>ax. ax < length shp \<and> shp ! ax = 1) (axes_to_sqz k shp)"
  by (auto simp: axes_to_sqz_def list_all_iff in_set_enumerate_eq)

lemma axes_to_sqz_set:
  "set (axes_to_sqz k shp) = {ax. ax < length shp \<and> shp ! ax = 1 \<and> k < ax}"
  by (auto simp: axes_to_sqz_def in_set_enumerate_eq image_iff)

lemma squeeze_axes_to_sqz:
  "squeeze a (axes_to_sqz k (shape a)) = Inr (a\<lparr>shape := shape_after_squeeze k (shape a)\<rparr>)"
proof -
  have "filter (\<lambda>(ax, sz). ax \<notin> set (axes_to_sqz k (shape a))) (enumerate 0 (shape a))
      = filter (\<lambda>(ax, sz). \<not> (sz = 1 \<and> k < ax)) (enumerate 0 (shape a))"
    by (rule filter_cong) (auto simp: axes_to_sqz_set in_set_enumerate_eq)
  then show ?thesis
    using axes_to_sqz_valid [of "shape a" k]
    by (simp add: squeeze_def shape_after_squeeze_def)
qed

lemma astype_shape_update:
  "astype np (a\<lparr>shape := s\<rparr>) dt = map_option (\<lambda>r. r\<lparr>shape := s\<rparr>) (astype np a dt)"
  by (simp add: astype_def Let_def)

lemma astype_Some:
  "astype np a dt = Some r \<Longrightarrow>
     shape r = shape a \<and> dtype r = np_dtype np dt \<and>
     elements r = map (\<lambda>x. the (np_convert np dt (dtype a) x)) (elements a)"
  by (auto simp: astype_def Let_def split: if_splits)

lemma astype_same_shape:
  "astype np a dt = Some r \<Longrightarrow> shape a = s \<Longrightarrow> r\<lparr>shape := s\<rparr> = r"
  by (auto simp: astype_def Let_def split: if_splits)

lemma ensure_ndarray_size_squeezed:
  "ensure_ndarray_size np (a\<lparr>shape := s\<rparr>) dt k =
     (if int (length s) \<noteq> k then Inl ValueError
      else if np_issubdtype np dt (dtype a) then Inr (a\<lparr>shape := s\<rparr>)
      else case astype np a dt of
             None \<Rightarrow> Inl ValueError
           | Some c \<Rightarrow> Inr (c\<lparr>shape := s\<rparr>))"
  by (simp add: ensure_ndarray_size_def ndim_def astype_shape_update split: option.splits)

lemma ensure_ndarray_1D_unfold:
  "as_ndarray np array = Inr a \<Longrightarrow>
   ensure_ndarray_1D np array dt =
     (if length (shape_after_squeeze 0 (shape a)) \<noteq> 1 then Inl ValueError
      else if np_issubdtype np dt (dtype a)
      then Inr (a\<lparr>shape := shape_after_squeeze 0 (shape a)\<rparr>)
      else case astype np a dt of
             None \<Rightarrow> Inl ValueError
           | Some c \<Rightarrow> Inr (c\<lparr>shape := shape_after_squeeze 0 (shape a)\<rparr>))"
  by (simp add: ensure_ndarray_1D_def squeeze_axes_to_sqz ensure_ndarray_size_squeezed)

lemma ensure_ndarray_2D_unfold:
  "as_ndarray np array = Inr a \<Longrightarrow>
   ensure_ndarray_2D np array dt cols =
     (if length (shape_after_squeeze 1 (shape a)) \<noteq> 2 then Inl ValueError
      else if \<not> np_issubdtype np dt (dtype a) \<and> astype np a dt = None then Inl ValueError
      else if cols \<noteq> None \<and> cols \<noteq> Some (int (shape_after_squeeze 1 (shape a) ! 1))
      then Inl ValueError
      else Inr ((if np_issubdtype np dt (dtype a) then a else the (astype np a dt))
                  \<lparr>shape := shape_after_squeeze 1 (shape a)\<rparr>))"
  by (auto simp add: ensure_ndarray_2D_def squeeze_axes_to_sqz ensure_ndarray_size_squeezed
      split: option.splits)

subsection \<open>\<^verbatim>\<open>ensure_ndarray_2D\<close>\<close>

text \<open>
  C7. Let \<open>a\<close> be the array form of the input of \<^verbatim>\<open>ensure_ndarray_2D\<close>. The call raises a
  \<^verbatim>\<open>ValueError\<close> when \<open>a\<close>, after the singleton axes beyond the second are squeezed, does
  not have two dimensions; when it has two and its number of columns differs from the
  requested \<open>ensure_num_cols\<close>; and when the dtype test sends it to \<^verbatim>\<open>astype\<close> and the
  conversion fails. For an array of shape \<open>(n, d)\<close> that passes the dtype test or
  converts, with no column count requested or \<open>d\<close> requested, the call returns an array
  of shape \<open>(n, d)\<close>, of two dimensions: the array itself when it passes the dtype
  test, its conversion otherwise.
\<close>

theorem ensure_ndarray_2D_cases:
  assumes "as_ndarray np array = Inr a"
  shows
    "(length (shape_after_squeeze 1 (shape a)) \<noteq> 2
        \<longrightarrow> ensure_ndarray_2D np array ensure_dtype ensure_num_cols = Inl ValueError) \<and>
     (length (shape_after_squeeze 1 (shape a)) = 2
        \<and> int (shape_after_squeeze 1 (shape a) ! 1) \<noteq> cols
        \<longrightarrow> ensure_ndarray_2D np array ensure_dtype (Some cols) = Inl ValueError) \<and>
     (\<not> np_issubdtype np ensure_dtype (dtype a) \<and> astype np a ensure_dtype = None
        \<longrightarrow> ensure_ndarray_2D np array ensure_dtype ensure_num_cols = Inl ValueError) \<and>
     (shape a = [n, d]
        \<and> (np_issubdtype np ensure_dtype (dtype a) \<or> astype np a ensure_dtype \<noteq> None)
        \<and> (ensure_num_cols = None \<or> ensure_num_cols = Some (int d))
        \<longrightarrow> (\<exists>r. ensure_ndarray_2D np array ensure_dtype ensure_num_cols = Inr r
                 \<and> shape r = [n, d] \<and> ndim r = 2
                 \<and> (if np_issubdtype np ensure_dtype (dtype a) then r = a
                      else astype np a ensure_dtype = Some r)))"
proof -
  note unfold = ensure_ndarray_2D_unfold [OF assms, of ensure_dtype]
  have sq: "shape_after_squeeze (Suc 0) [n, d] = [n, d]"
    by (simp add: shape_after_squeeze_def)
  have dims: "ensure_ndarray_2D np array ensure_dtype ensure_num_cols = Inl ValueError"
    if "length (shape_after_squeeze 1 (shape a)) \<noteq> 2"
    using that by (simp add: unfold)
  have columns: "ensure_ndarray_2D np array ensure_dtype (Some cols) = Inl ValueError"
    if "length (shape_after_squeeze 1 (shape a)) = 2"
      and "int (shape_after_squeeze 1 (shape a) ! 1) \<noteq> cols"
    using that by (auto simp add: unfold)
  have conversion: "ensure_ndarray_2D np array ensure_dtype ensure_num_cols = Inl ValueError"
    if "\<not> np_issubdtype np ensure_dtype (dtype a)" and "astype np a ensure_dtype = None"
    using that by (simp add: unfold)
  have valid: "\<exists>r. ensure_ndarray_2D np array ensure_dtype ensure_num_cols = Inr r
                 \<and> shape r = [n, d] \<and> ndim r = 2
                 \<and> (if np_issubdtype np ensure_dtype (dtype a) then r = a
                      else astype np a ensure_dtype = Some r)"
    if shp: "shape a = [n, d]"
      and ok: "np_issubdtype np ensure_dtype (dtype a) \<or> astype np a ensure_dtype \<noteq> None"
      and requested: "ensure_num_cols = None \<or> ensure_num_cols = Some (int d)"
  proof (cases "np_issubdtype np ensure_dtype (dtype a)")
    case True
    have "a\<lparr>shape := [n, d]\<rparr> = a"
      using shp by (cases a) simp
    with True shp requested show ?thesis
      by (auto simp add: unfold sq ndim_def)
  next
    case False
    with ok obtain r where r: "astype np a ensure_dtype = Some r"
      by auto
    have "shape r = [n, d]"
      using astype_Some [OF r] shp by simp
    moreover have "r\<lparr>shape := [n, d]\<rparr> = r"
      using astype_same_shape [OF r shp] .
    ultimately show ?thesis
      using False r shp requested by (auto simp add: unfold sq ndim_def)
  qed
  from dims columns conversion valid show ?thesis
    by blast
qed

text \<open>
  The calls of the test suite in small: a matrix of three columns with two requested, a
  vector, a matrix of texts, and the matrix of three columns with nothing requested.
\<close>

theorem ensure_ndarray_2D_witness:
  "ensure_ndarray_2D sample_numpy (Ndarray sample_matrix) ''number'' (Some 2) = Inl ValueError \<and>
   ensure_ndarray_2D sample_numpy (Ndarray sample_vector) ''number'' (Some 3) = Inl ValueError \<and>
   ensure_ndarray_2D sample_numpy (Ndarray sample_text_matrix) ''number'' None = Inl ValueError \<and>
   (\<exists>r. ensure_ndarray_2D sample_numpy (Ndarray sample_matrix) ''number'' None = Inr r
      \<and> shape r = [2, 3] \<and> ndim r = 2 \<and> dtype r = ''float64'')"
proof -
  have cols: "ensure_ndarray_2D sample_numpy (Ndarray sample_matrix) ''number'' (Some 2)
                = Inl ValueError"
    using ensure_ndarray_2D_cases [where np = sample_numpy and array = "Ndarray sample_matrix"
        and a = sample_matrix and ensure_dtype = "''number''" and cols = 2]
    by (simp add: as_ndarray_def sample_matrix_def shape_after_squeeze_def)
  have dims: "ensure_ndarray_2D sample_numpy (Ndarray sample_vector) ''number'' (Some 3)
                = Inl ValueError"
    using ensure_ndarray_2D_cases [where np = sample_numpy and array = "Ndarray sample_vector"
        and a = sample_vector and ensure_dtype = "''number''" and ensure_num_cols = "Some 3"]
    by (simp add: as_ndarray_def sample_vector_def shape_after_squeeze_def)
  have texts: "ensure_ndarray_2D sample_numpy (Ndarray sample_text_matrix) ''number'' None
                 = Inl ValueError"
    using ensure_ndarray_2D_cases [where np = sample_numpy and array = "Ndarray sample_text_matrix"
        and a = sample_text_matrix and ensure_dtype = "''number''" and ensure_num_cols = None]
    by (simp add: as_ndarray_def sample_text_matrix_def sample_numpy_def astype_def)
  have valid: "\<exists>r. ensure_ndarray_2D sample_numpy (Ndarray sample_matrix) ''number'' None = Inr r
                 \<and> shape r = [2, 3] \<and> ndim r = 2 \<and> dtype r = ''float64''"
    using ensure_ndarray_2D_cases [where np = sample_numpy and array = "Ndarray sample_matrix"
        and a = sample_matrix and ensure_dtype = "''number''" and ensure_num_cols = None
        and n = 2 and d = 3]
    by (simp add: as_ndarray_def sample_matrix_def sample_numpy_def astype_def)
  from cols dims texts valid show ?thesis by blast
qed

subsection \<open>\<^verbatim>\<open>ensure_ndarray_1D\<close>\<close>

text \<open>
  C8. Let \<open>a\<close> be the array form of the input of \<^verbatim>\<open>ensure_ndarray_1D\<close>. When \<open>a\<close> is a
  column vector of shape \<open>(n, 1)\<close> or \<open>(n, 1, 1)\<close> that passes the dtype test, the call
  returns \<open>a\<close> with the shape \<open>(n)\<close>, its elements as they are; when it does not pass
  the dtype test and every element converts, the call returns the array of shape \<open>(n)\<close>
  of the converted elements, in the order of \<open>a\<close>. A row of shape \<open>(1, n)\<close> with
  \<open>n > 1\<close> raises a \<^verbatim>\<open>ValueError\<close>.
\<close>

theorem ensure_ndarray_1D_cases:
  assumes "as_ndarray np array = Inr a"
  shows
    "((shape a = [n, 1] \<or> shape a = [n, 1, 1]) \<and> np_issubdtype np ensure_dtype (dtype a)
        \<longrightarrow> ensure_ndarray_1D np array ensure_dtype = Inr (a\<lparr>shape := [n]\<rparr>)) \<and>
     ((shape a = [n, 1] \<or> shape a = [n, 1, 1]) \<and> \<not> np_issubdtype np ensure_dtype (dtype a)
        \<and> list_all (\<lambda>x. np_convert np ensure_dtype (dtype a) x \<noteq> None) (elements a)
        \<longrightarrow> ensure_ndarray_1D np array ensure_dtype =
              Inr \<lparr>shape = [n], dtype = np_dtype np ensure_dtype,
                   elements = map (\<lambda>x. the (np_convert np ensure_dtype (dtype a) x)) (elements a)\<rparr>) \<and>
     (shape a = [1, n] \<and> 1 < n \<longrightarrow> ensure_ndarray_1D np array ensure_dtype = Inl ValueError)"
proof -
  have col: "shape_after_squeeze 0 [n, Suc 0] = [n]" "shape_after_squeeze 0 [n, Suc 0, Suc 0] = [n]"
    by (simp_all add: shape_after_squeeze_def)
  have row: "Suc 0 < n \<Longrightarrow> shape_after_squeeze 0 [Suc 0, n] = [Suc 0, n]"
    by (simp add: shape_after_squeeze_def)
  have conv: "list_all (\<lambda>x. np_convert np ensure_dtype (dtype a) x \<noteq> None) (elements a) \<Longrightarrow>
      astype np a ensure_dtype =
        Some (a\<lparr>dtype := np_dtype np ensure_dtype,
               elements := map (\<lambda>x. the (np_convert np ensure_dtype (dtype a) x)) (elements a)\<rparr>)"
    by (simp add: astype_def Let_def list_all_iff comp_def)
  show ?thesis
    using assms
    apply (intro conjI impI)
      apply (auto simp add: ensure_ndarray_1D_unfold col)[1]
     apply (auto simp add: ensure_ndarray_1D_unfold col conv)[1]
    apply (simp add: ensure_ndarray_1D_unfold row)
    done
qed

text \<open>
  A column of three numbers is accepted, as an array of two and of three dimensions; the
  row of the same numbers is refused.
\<close>

theorem ensure_ndarray_1D_witness:
  "ensure_ndarray_1D sample_numpy (Ndarray sample_column) ''number''
     = Inr \<lparr>shape = [3], dtype = ''float64'', elements = [Inl 1, Inl 2, Inl 3]\<rparr> \<and>
   ensure_ndarray_1D sample_numpy (Ndarray sample_column) ''int64''
     = Inr \<lparr>shape = [3], dtype = ''int64'', elements = [Inl 1, Inl 2, Inl 3]\<rparr> \<and>
   ensure_ndarray_1D sample_numpy (Ndarray sample_column_3D) ''number''
     = Inr \<lparr>shape = [3], dtype = ''float64'', elements = [Inl 1, Inl 2, Inl 3]\<rparr> \<and>
   ensure_ndarray_1D sample_numpy (Ndarray sample_row) ''number'' = Inl ValueError"
proof -
  have converted_3D: "ensure_ndarray_1D sample_numpy (Ndarray sample_column_3D) ''number''
      = Inr \<lparr>shape = [3], dtype = ''float64'', elements = [Inl 1, Inl 2, Inl 3]\<rparr>"
    using ensure_ndarray_1D_cases [where np = sample_numpy and array = "Ndarray sample_column_3D"
        and a = sample_column_3D and ensure_dtype = "''number''" and n = 3]
    by (simp add: as_ndarray_def sample_column_3D_def sample_numpy_def)
  have converted: "ensure_ndarray_1D sample_numpy (Ndarray sample_column) ''number''
      = Inr \<lparr>shape = [3], dtype = ''float64'', elements = [Inl 1, Inl 2, Inl 3]\<rparr>"
    using ensure_ndarray_1D_cases [where np = sample_numpy and array = "Ndarray sample_column"
        and a = sample_column and ensure_dtype = "''number''" and n = 3]
    by (simp add: as_ndarray_def sample_column_def sample_numpy_def)
  have kept: "ensure_ndarray_1D sample_numpy (Ndarray sample_column) ''int64''
      = Inr \<lparr>shape = [3], dtype = ''int64'', elements = [Inl 1, Inl 2, Inl 3]\<rparr>"
    using ensure_ndarray_1D_cases [where np = sample_numpy and array = "Ndarray sample_column"
        and a = sample_column and ensure_dtype = "''int64''" and n = 3]
    by (simp add: as_ndarray_def sample_column_def sample_numpy_def)
  have row: "ensure_ndarray_1D sample_numpy (Ndarray sample_row) ''number'' = Inl ValueError"
    using ensure_ndarray_1D_cases [where np = sample_numpy and array = "Ndarray sample_row"
        and a = sample_row and ensure_dtype = "''number''" and n = 3]
    by (simp add: as_ndarray_def sample_row_def)
  from converted kept converted_3D row show ?thesis by blast
qed

subsection \<open>\<^verbatim>\<open>check_input_arrays\<close>\<close>

lemma ensure_ndarray_1D_ndim:
  assumes "ensure_ndarray_1D np array dt = Inr r"
  shows "ndim r = 1"
proof (cases "as_ndarray np array")
  case (Inl e)
  with assms show ?thesis by (simp add: ensure_ndarray_1D_def)
next
  case (Inr a)
  with assms show ?thesis
    by (auto simp add: ensure_ndarray_1D_unfold ndim_def split: if_splits option.splits
        dest: astype_Some)
qed

text \<open>
  C5. When both inputs of \<^verbatim>\<open>check_input_arrays\<close> pass \<^verbatim>\<open>ensure_ndarray_1D\<close>, the call
  raises a \<^verbatim>\<open>ValueError\<close> if the two arrays differ in size and returns the pair of them
  if they have the same size; both have one dimension.
\<close>

theorem check_input_arrays_cases:
  assumes "ensure_ndarray_1D np x ensure_dtype = Inr x1"
    and "ensure_ndarray_1D np y ensure_dtype = Inr y1"
  shows
    "(ndarray_size x1 \<noteq> ndarray_size y1
        \<longrightarrow> check_input_arrays np x y ensure_dtype = Inl ValueError) \<and>
     (ndarray_size x1 = ndarray_size y1
        \<longrightarrow> check_input_arrays np x y ensure_dtype = Inr (x1, y1)) \<and>
     ndim x1 = 1 \<and> ndim y1 = 1"
  using assms ensure_ndarray_1D_ndim [OF assms(1)] ensure_ndarray_1D_ndim [OF assms(2)]
  by (simp add: check_input_arrays_def)

text \<open>
  Lists of three and of two numbers differ in size; a list of three numbers and the
  column of three numbers are returned as arrays of three elements.
\<close>

theorem check_input_arrays_witness:
  "check_input_arrays sample_numpy (Other [Inl 1, Inl 2, Inl 3]) (Other [Inl 4, Inl 5]) ''number''
     = Inl ValueError \<and>
   check_input_arrays sample_numpy (Other [Inl 7, Inl 8, Inl 9]) (Ndarray sample_column) ''number''
     = Inr (\<lparr>shape = [3], dtype = ''float64'', elements = [Inl 7, Inl 8, Inl 9]\<rparr>,
            \<lparr>shape = [3], dtype = ''float64'', elements = [Inl 1, Inl 2, Inl 3]\<rparr>)"
proof -
  have three: "ensure_ndarray_1D sample_numpy (Other [Inl 1, Inl 2, Inl 3]) ''number''
      = Inr \<lparr>shape = [3], dtype = ''float64'', elements = [Inl 1, Inl 2, Inl 3]\<rparr>"
    by (simp add: ensure_ndarray_1D_def as_ndarray_def sample_numpy_def squeeze_def
        axes_to_sqz_def ensure_ndarray_size_def astype_def ndim_def)
  have two: "ensure_ndarray_1D sample_numpy (Other [Inl 4, Inl 5]) ''number''
      = Inr \<lparr>shape = [2], dtype = ''float64'', elements = [Inl 4, Inl 5]\<rparr>"
    by (simp add: ensure_ndarray_1D_def as_ndarray_def sample_numpy_def squeeze_def
        axes_to_sqz_def ensure_ndarray_size_def astype_def ndim_def)
  have other: "ensure_ndarray_1D sample_numpy (Other [Inl 7, Inl 8, Inl 9]) ''number''
      = Inr \<lparr>shape = [3], dtype = ''float64'', elements = [Inl 7, Inl 8, Inl 9]\<rparr>"
    by (simp add: ensure_ndarray_1D_def as_ndarray_def sample_numpy_def squeeze_def
        axes_to_sqz_def ensure_ndarray_size_def astype_def ndim_def)
  have column: "ensure_ndarray_1D sample_numpy (Ndarray sample_column) ''number''
      = Inr \<lparr>shape = [3], dtype = ''float64'', elements = [Inl 1, Inl 2, Inl 3]\<rparr>"
    by (simp add: ensure_ndarray_1D_def as_ndarray_def sample_numpy_def squeeze_def
        axes_to_sqz_def ensure_ndarray_size_def astype_def ndim_def sample_column_def)
  have differ: "check_input_arrays sample_numpy (Other [Inl 1, Inl 2, Inl 3])
                  (Other [Inl 4, Inl 5]) ''number'' = Inl ValueError"
    using check_input_arrays_cases [OF three two] by (simp add: ndarray_size_def)
  have same: "check_input_arrays sample_numpy (Other [Inl 7, Inl 8, Inl 9])
                (Ndarray sample_column) ''number''
      = Inr (\<lparr>shape = [3], dtype = ''float64'', elements = [Inl 7, Inl 8, Inl 9]\<rparr>,
             \<lparr>shape = [3], dtype = ''float64'', elements = [Inl 1, Inl 2, Inl 3]\<rparr>)"
    using check_input_arrays_cases [OF other column] by (simp add: ndarray_size_def)
  from differ same show ?thesis by blast
qed

section \<open>KernelSet and KernelMatrix: properties\<close>

text \<open>
  C1. When the sample count of a set is established as \<open>N\<close> and the matrix appended has
  the sample count \<open>M\<close> with \<open>M \<noteq> N\<close>, \<^verbatim>\<open>append\<close> raises \<^verbatim>\<open>KMSetAdditionError\<close>, which is
  not a \<^verbatim>\<open>ValueError\<close>, and the set is as it was, so its number of members is unchanged.
\<close>

theorem ks_append_size_mismatch:
  assumes "num_samples ks = Some N"
    and "km_num_samples (store km) = Some M"
    and "M \<noteq> N"
  shows "ks_append store ks km = (Some KMSetAdditionError, ks)
         \<and> fst (ks_append store ks km) \<noteq> Some ValueError
         \<and> ks_size (snd (ks_append store ks km)) = ks_size ks"
  using assms by (simp add: ks_append_def)

text \<open>
  The test \<^verbatim>\<open>test_size_property_mismatch\<close> (a set declared for one sample more than the
  matrix has), and the scenario of the specification: the first matrix appended to an
  undeclared empty set fixes the count, and a matrix with one sample more is refused.
\<close>

theorem ks_append_size_mismatch_witness:
  "ks_append sample_store (empty_kernel_set (Some 4)) 0
     = (Some KMSetAdditionError, empty_kernel_set (Some 4)) \<and>
   ks_size (snd (ks_append sample_store (empty_kernel_set (Some 4)) 0)) = 0 \<and>
   ks_append sample_store (snd (ks_append sample_store (empty_kernel_set None) 0)) 1
     = (Some KMSetAdditionError, \<lparr>members = [0], num_samples = Some 3\<rparr>)"
proof -
  have first: "snd (ks_append sample_store (empty_kernel_set None) 0)
                 = \<lparr>members = [0], num_samples = Some 3\<rparr>"
    by (simp add: ks_append_def empty_kernel_set_def sample_store_def km_num_samples_def
        attach_to_def sample_data_def)
  have declared: "ks_append sample_store (empty_kernel_set (Some 4)) 0
                    = (Some KMSetAdditionError, empty_kernel_set (Some 4))"
    using ks_append_size_mismatch [of "empty_kernel_set (Some 4)" 4 sample_store 0 3]
    by (simp add: empty_kernel_set_def sample_store_def km_num_samples_def attach_to_def
        sample_data_def)
  have inferred: "ks_append sample_store \<lparr>members = [0], num_samples = Some 3\<rparr> 1
                    = (Some KMSetAdditionError, \<lparr>members = [0], num_samples = Some 3\<rparr>)"
    using ks_append_size_mismatch [of "\<lparr>members = [0], num_samples = Some 3\<rparr>" 3 sample_store 1 4]
    by (simp add: sample_store_def km_num_samples_def attach_to_def sample_data_def)
  show ?thesis
    by (simp only: declared inferred first snd_conv) (simp add: ks_size_def empty_kernel_set_def)
qed

text \<open>
  C2. For an attached matrix and indices \<open>i\<close>, \<open>j\<close> within \<open>[0, num_samples)\<close>, the
  access at \<open>(i, j)\<close> succeeds, and the access at \<open>(j, i)\<close> that follows returns the
  identical value and leaves the matrix as it is: both read the cache at the same key.
\<close>

theorem km_getitem_symmetric:
  assumes "dataset km = Some samples"
    and "0 \<le> i" and "i < int (length samples)"
    and "0 \<le> j" and "j < int (length samples)"
  shows "\<exists>v km'. km_getitem km i j = Inr (v, km') \<and> km_getitem km' j i = Inr (v, km')
           \<and> dataset km' = Some samples"
proof (cases "cache km (nat (min i j), nat (max i j))")
  case None
  with assms show ?thesis
    by (simp add: km_getitem_def Let_def min.commute max.commute)
next
  case (Some v)
  with assms show ?thesis
    by (simp add: km_getitem_def Let_def min.commute max.commute)
qed

theorem km_getitem_symmetric_witness:
  "\<exists>v km'. km_getitem (sample_store 0) 2 1 = Inr (v, km') \<and> km_getitem km' 1 2 = Inr (v, km')
     \<and> dataset km' = Some sample_data"
  using km_getitem_symmetric [of "sample_store 0" sample_data 2 1]
  by (simp add: sample_store_def attach_to_def sample_data_def)

text \<open>
  C3. For every set, an integer index below zero or not below the size raises an
  \<^verbatim>\<open>IndexError\<close>, in particular \<open>-1\<close> and the size itself; a float and a string raise a
  \<^verbatim>\<open>ValueError\<close>, which is another class than \<^verbatim>\<open>IndexError\<close>.
\<close>

theorem ks_getitem_errors:
  "(i < 0 \<or> int (ks_size ks) \<le> i \<longrightarrow> ks_getitem ks (IntIndex i) = Inl IndexError) \<and>
   ks_getitem ks (IntIndex (- 1)) = Inl IndexError \<and>
   ks_getitem ks (IntIndex (int (ks_size ks))) = Inl IndexError \<and>
   ks_getitem ks (FloatIndex f) = Inl ValueError \<and>
   ks_getitem ks (StrIndex s) = Inl ValueError \<and>
   ValueError \<noteq> IndexError"
  by (simp add: ks_getitem_def)

theorem ks_getitem_errors_witness:
  "ks_getitem sample_set (IntIndex (- 1)) = Inl IndexError \<and>
   ks_getitem sample_set (IntIndex 3) = Inl IndexError \<and>
   ks_getitem sample_set (IntIndex 7) = Inl IndexError \<and>
   ks_getitem sample_set (FloatIndex 1) = Inl ValueError \<and>
   ks_getitem sample_set (StrIndex ''1'') = Inl ValueError"
  using ks_getitem_errors [of 7 sample_set 1 "''1''"]
  by (simp add: sample_set_def ks_size_def)

text \<open>
  Every index of a list of integers within \<open>[0, size)\<close> is accepted, and the members
  selected are those at the indices, in the order of the indices.
\<close>

lemma take_members_valid:
  "list_all (\<lambda>i. 0 \<le> i \<and> i < int (ks_size ks)) indices \<Longrightarrow>
   take_members ks (map IntIndex indices) = Inr (map (\<lambda>i. members ks ! nat i) indices)"
  by (induction indices) (simp_all add: ks_getitem_def)

text \<open>
  C4. For a list of integer indices within \<open>[0, size)\<close>, \<^verbatim>\<open>take\<close> returns a new set
  whose members are the references found at the indices, in the order of the indices (the
  same references, so the same objects), and the original set is as it was.
\<close>

theorem ks_take_valid:
  assumes "list_all (\<lambda>i. 0 \<le> i \<and> i < int (ks_size ks)) indices"
  shows "\<exists>new. ks_take ks (map IntIndex indices) = (Inr new, ks)
           \<and> members new = map (\<lambda>i. members ks ! nat i) indices
           \<and> ks_size new = length indices"
  using take_members_valid [OF assms] by (simp add: ks_take_def ks_size_def)

text \<open>\<^verbatim>\<open>take([0, 1])\<close> on the set of three members: a set of two, the original still of three.\<close>

theorem ks_take_valid_witness:
  "\<exists>new. ks_take sample_set [IntIndex 0, IntIndex 1] = (Inr new, sample_set)
     \<and> members new = [10, 11] \<and> ks_size new = 2 \<and> ks_size sample_set = 3"
  using ks_take_valid [of sample_set "[0, 1]"]
  by (auto simp add: sample_set_def ks_size_def)

end
